theory Spec2Isabelle
  imports Complex_Main "HOL-Library.Multiset"
begin

section \<open>Python strings\<close>

text \<open>
  Labels are Python \<^verbatim>\<open>str\<close> values. They are modelled as \<^typ>\<open>string\<close> over the ASCII
  range, where one character is one code point: \<^verbatim>\<open>len\<close> is \<^const>\<open>length\<close>, a slice
  \<^verbatim>\<open>s[:k]\<close> is \<^term>\<open>take k s\<close>. \<^verbatim>\<open>str.strip()\<close> removes the ASCII characters for which
  \<^verbatim>\<open>str.isspace()\<close> holds, and \<^verbatim>\<open>str.lower()\<close> maps A-Z to a-z.
\<close>

definition is_space :: "char \<Rightarrow> bool" where
  "is_space c = (c \<in> set [CHR 0x09, CHR 0x0A, CHR 0x0B, CHR 0x0C, CHR 0x0D,
                            CHR 0x1C, CHR 0x1D, CHR 0x1E, CHR 0x1F, CHR 0x20])"

definition strip :: "string \<Rightarrow> string" where
  "strip s = rev (dropWhile is_space (rev (dropWhile is_space s)))"

definition lower_char :: "char \<Rightarrow> char" where
  "lower_char c =
     (case map_of (zip ''ABCDEFGHIJKLMNOPQRSTUVWXYZ'' ''abcdefghijklmnopqrstuvwxyz'') c of
        None \<Rightarrow> c | Some d \<Rightarrow> d)"

definition lower :: "string \<Rightarrow> string" where
  "lower s = map lower_char s"

text \<open>\<^verbatim>\<open>s.startswith(p)\<close> and \<^verbatim>\<open>sub in s\<close>.\<close>

definition startswith :: "string \<Rightarrow> string \<Rightarrow> bool" where
  "startswith s p = (take (length p) s = p)"

fun contains :: "string \<Rightarrow> string \<Rightarrow> bool" where
  "contains [] sub = (sub = [])"
| "contains (c # cs) sub = (startswith (c # cs) sub \<or> contains cs sub)"

text \<open>The order of \<^verbatim>\<open>str\<close>: lexicographic on code points.\<close>

fun str_le :: "string \<Rightarrow> string \<Rightarrow> bool" where
  "str_le [] t = True"
| "str_le (c # cs) [] = False"
| "str_le (c # cs) (d # ds) =
     ((of_char c :: nat) < of_char d \<or> (c = d \<and> str_le cs ds))"

section \<open>Python floats\<close>

text \<open>
  A Python \<^verbatim>\<open>float\<close> is modelled by its exact value, or one of the three special values;
  the rounding and the overflow of doubles are not modelled.
\<close>

datatype pyfloat = Fin real | PosInf | NegInf | NaN

definition is_digit :: "char \<Rightarrow> bool" where
  "is_digit c = (c \<in> set ''0123456789'')"

definition digit_val :: "char \<Rightarrow> nat" where
  "digit_val c = of_char c - 48"

text \<open>
  \<^verbatim>\<open>float(s)\<close> on a string follows the grammar of the language reference:
  \<^verbatim>\<open>digitpart ::= digit (["_"] digit)*\<close>,
  \<^verbatim>\<open>number ::= [digitpart] "." digitpart | digitpart ["."]\<close>,
  \<^verbatim>\<open>exponent ::= ("e" | "E") [sign] digitpart\<close>,
  \<^verbatim>\<open>floatvalue ::= [sign] (number [exponent] | "inf" | "infinity" | "nan")\<close>,
  with surrounding whitespace removed (tab, line feed, vertical tab, form feed, carriage
  return and space only) and the words read case-insensitively.
  \<open>digits_tail\<close> is called on a string that starts with a digit and returns what is left
  after the longest \<^verbatim>\<open>digitpart\<close>.
\<close>

fun digits_tail :: "string \<Rightarrow> string" where
  "digits_tail [] = []"
| "digits_tail [c] = (if is_digit c then [] else [c])"
| "digits_tail (c # d # cs) =
     (if is_digit c then digits_tail (d # cs)
      else if c = CHR ''_'' \<and> is_digit d then digits_tail (d # cs)
      else c # d # cs)"

definition span_digitpart :: "string \<Rightarrow> string \<times> string" where
  "span_digitpart s =
     (case s of
        [] \<Rightarrow> ([], [])
      | c # cs \<Rightarrow>
          if is_digit c
          then (let r = digits_tail s in (take (length s - length r) s, r))
          else ([], s))"

fun nat_of_digits :: "nat \<Rightarrow> string \<Rightarrow> nat" where
  "nat_of_digits acc [] = acc"
| "nat_of_digits acc (c # cs) =
     (if is_digit c then nat_of_digits (10 * acc + digit_val c) cs
      else nat_of_digits acc cs)"

definition parse_exponent :: "string \<Rightarrow> int option" where
  "parse_exponent s =
     (case s of
        [] \<Rightarrow> Some 0
      | c # cs \<Rightarrow>
          if c = CHR ''e'' \<or> c = CHR ''E'' then
            (let neg = (case cs of [] \<Rightarrow> False | d # ds \<Rightarrow> d = CHR ''-'');
                 r = (case cs of [] \<Rightarrow> []
                      | d # ds \<Rightarrow> if d = CHR ''-'' \<or> d = CHR ''+'' then ds else cs);
                 ep = fst (span_digitpart r);
                 r' = snd (span_digitpart r);
                 e = int (nat_of_digits 0 ep)
             in if ep \<noteq> [] \<and> r' = [] then Some (if neg then - e else e) else None)
          else None)"

definition scale10 :: "real \<Rightarrow> int \<Rightarrow> real" where
  "scale10 x e = (if 0 \<le> e then x * 10 ^ nat e else x / 10 ^ nat (- e))"

definition parse_number :: "string \<Rightarrow> real option" where
  "parse_number s =
     (let ip = fst (span_digitpart s); r1 = snd (span_digitpart s) in
      case r1 of
        [] \<Rightarrow> if ip = [] then None else Some (real (nat_of_digits 0 ip))
      | c # cs \<Rightarrow>
          if c = CHR ''.'' then
            (let fp = fst (span_digitpart cs); r2 = snd (span_digitpart cs);
                 m = real (nat_of_digits 0 ip)
                     + real (nat_of_digits 0 fp) / 10 ^ length (filter is_digit fp)
             in if ip = [] \<and> fp = [] then None
                else map_option (scale10 m) (parse_exponent r2))
          else if ip = [] then None
          else map_option (scale10 (real (nat_of_digits 0 ip))) (parse_exponent r1))"

definition float_strip :: "string \<Rightarrow> string" where
  "float_strip s =
     (let sp = (\<lambda>c. c \<in> set [CHR 0x09, CHR 0x0A, CHR 0x0B, CHR 0x0C, CHR 0x0D, CHR 0x20])
      in rev (dropWhile sp (rev (dropWhile sp s))))"

definition float_of_string :: "string \<Rightarrow> pyfloat option" where
  "float_of_string s =
     (let t = float_strip s;
          neg = (case t of [] \<Rightarrow> False | c # cs \<Rightarrow> c = CHR ''-'');
          body = (case t of [] \<Rightarrow> []
                  | c # cs \<Rightarrow> if c = CHR ''-'' \<or> c = CHR ''+'' then cs else t)
      in if lower body = ''inf'' \<or> lower body = ''infinity''
         then Some (if neg then NegInf else PosInf)
         else if lower body = ''nan'' then Some NaN
         else map_option (\<lambda>x. Fin (if neg then - x else x)) (parse_number body))"

text \<open>\<^verbatim>\<open>str(n)\<close> for a Python \<^verbatim>\<open>int\<close>.\<close>

function dec_nat :: "nat \<Rightarrow> string" where
  "dec_nat n =
     (if n < 10 then [char_of (48 + n)]
      else dec_nat (n div 10) @ [char_of (48 + n mod 10)])"
  by pat_completeness auto
termination
  by (relation "measure id") auto

declare dec_nat.simps [simp del]

definition str_int :: "int \<Rightarrow> string" where
  "str_int i = (if i < 0 then CHR ''-'' # dec_nat (nat (- i)) else dec_nat (nat i))"

section \<open>Cells and grids\<close>

text \<open>
  A cell of the raw sheet, as pandas hands it over with \<^verbatim>\<open>header=None\<close>: blank (None),
  a Python int, another number (a float or a bool, given by its value together with the
  text \<^verbatim>\<open>str\<close> prints for it), or text. A float cell that holds NaN is blank for
  \<^verbatim>\<open>pd.isna\<close> as well.
\<close>

datatype cell = Blank | IntC int | NumC pyfloat string | Txt string

definition isna :: "cell \<Rightarrow> bool" where
  "isna c = (case c of Blank \<Rightarrow> True | IntC i \<Rightarrow> False | NumC v s \<Rightarrow> v = NaN | Txt s \<Rightarrow> False)"

definition py_str :: "cell \<Rightarrow> string" where
  "py_str c = (case c of Blank \<Rightarrow> ''nan'' | IntC i \<Rightarrow> str_int i | NumC v s \<Rightarrow> s | Txt s \<Rightarrow> s)"

definition is_numeric_cell :: "cell \<Rightarrow> bool" where
  "is_numeric_cell val =
     (if isna val then False
      else case val of
        Blank \<Rightarrow> False
      | IntC i \<Rightarrow> True
      | NumC v s \<Rightarrow> True
      | Txt s \<Rightarrow> float_of_string (strip s) \<noteq> None)"

text \<open>
  The coercion of a metric cell:
  \<^verbatim>\<open>try: float(val) if pd.notna(val) else 0.0  except (ValueError, TypeError): 0.0\<close>.
\<close>

definition float_or_zero :: "cell \<Rightarrow> pyfloat" where
  "float_or_zero val =
     (if isna val then Fin 0
      else case val of
        Blank \<Rightarrow> Fin 0
      | IntC i \<Rightarrow> Fin (real_of_int i)
      | NumC v s \<Rightarrow> v
      | Txt s \<Rightarrow> (case float_of_string s of None \<Rightarrow> Fin 0 | Some v \<Rightarrow> v))"

text \<open>
  The grid is a list of rows. A data frame built from rows of different lengths is padded
  with blanks to the longest row, so a read past the end of a row is blank.
\<close>

type_synonym grid = "cell list list"

definition nrows :: "grid \<Rightarrow> nat" where
  "nrows g = length g"

definition ncols :: "grid \<Rightarrow> nat" where
  "ncols g = foldr (\<lambda>r m. max (length r) m) g 0"

definition cell_at :: "cell list \<Rightarrow> nat \<Rightarrow> cell" where
  "cell_at r j = (if j < length r then r ! j else Blank)"

section \<open>Name normalizer\<close>

text \<open>\<^verbatim>\<open>DRUG_ALIASES\<close>, in insertion order; \<open>None\<close> is the exclude sentinel.\<close>

definition DRUG_ALIASES :: "(string \<times> string option) list" where
  "DRUG_ALIASES =
     [(''Other. (somatrogon (NGENLA) 60mg/1.2mL PFP 1's)'', Some ''Ngenla (Pfizer)''),
      (''Other. (somatrogon (NGENLA)'', Some ''Ngenla (Pfizer)''),
      (''Other, please specify'', None),
      (''Other'', Some ''Ngenla (Pfizer)'')]"

fun first_alias :: "(string \<times> string option) list \<Rightarrow> string \<Rightarrow> string option option" where
  "first_alias [] s = None"
| "first_alias ((alias, canonical) # rest) s =
     (if contains s alias \<or> startswith s (take 20 alias) then Some canonical
      else first_alias rest s)"

definition normalize_drug_name :: "string \<Rightarrow> string option" where
  "normalize_drug_name name =
     (let s = strip name in
      case first_alias DRUG_ALIASES s of
        Some canonical \<Rightarrow> canonical
      | None \<Rightarrow> if s \<noteq> [] then Some s else None)"

section \<open>Table locator\<close>

definition header_keywords :: "string list" where
  "header_keywords = [''type'', ''drug'', ''product'', ''treatment'']"

definition is_header_cell :: "cell \<Rightarrow> bool" where
  "is_header_cell c =
     (let cell = lower (strip (py_str c))
      in list_ex (contains cell) header_keywords \<and> length cell < 50)"

definition header_col :: "nat \<Rightarrow> cell list \<Rightarrow> nat option" where
  "header_col nc r = List.find (\<lambda>j. is_header_cell (cell_at r j)) [0..<min 10 nc]"

text \<open>
  The row-major scan of the first 25 rows and 10 columns, left at the first match;
  \<open>None\<close> is \<^verbatim>\<open>header_row is None\<close>.
\<close>

fun find_header_rows :: "nat \<Rightarrow> nat \<Rightarrow> grid \<Rightarrow> (nat \<times> nat) option" where
  "find_header_rows nc i [] = None"
| "find_header_rows nc i (r # rs) =
     (case header_col nc r of
        Some j \<Rightarrow> Some (i, j)
      | None \<Rightarrow> find_header_rows nc (Suc i) rs)"

definition find_header :: "grid \<Rightarrow> (nat \<times> nat) option" where
  "find_header g = find_header_rows (ncols g) 0 (take 25 g)"

text \<open>\<^verbatim>\<open>[str(h).strip() if pd.notna(h) else "" for h in df_raw.iloc[header_row].tolist()]\<close>\<close>

definition header_labels :: "nat \<Rightarrow> cell list \<Rightarrow> string list" where
  "header_labels nc r =
     map (\<lambda>j. if isna (cell_at r j) then [] else strip (py_str (cell_at r j))) [0..<nc]"

section \<open>Section-aware row classifier\<close>

definition skip_type_values :: "string list" where
  "skip_type_values = [''scope'', ''time period'', ''type'', ''drug'', ''questionnaire'', []]"

definition looks_like_indication_section :: "string \<Rightarrow> bool" where
  "looks_like_indication_section type_str =
     (let s = lower (strip type_str) in
      if s = [] then False
      else if contains s ''total patients'' \<or> contains s ''unique'' then True
      else if contains s ''growth hormone'' \<and> (contains s ''def'' \<or> contains s ''ghd'') then True
      else if contains s ''gestational'' \<or> contains s ''sga'' then True
      else if contains s ''syndrome'' \<and> contains s ''turner'' then True
      else False)"

text \<open>
  The head of the loop body of the primary pass: the trimmed text of the key cell, or
  \<open>None\<close> when the row is skipped by one of the three \<^verbatim>\<open>continue\<close> statements.
\<close>

definition key_label :: "nat \<Rightarrow> nat \<Rightarrow> cell list \<Rightarrow> string option" where
  "key_label tc nc r =
     (let type_val = (if tc < nc then cell_at r tc else Blank) in
      if isna type_val then None
      else let type_str = strip (py_str type_val) in
        if type_str = [] then None
        else if lower type_str \<in> set skip_type_values
                \<or> contains (lower type_str) ''time period''
                \<or> contains (lower type_str) ''scope'' then None
        else Some type_str)"

text \<open>The numeric-bearing test of the primary pass (\<^verbatim>\<open>has_numeric\<close>).\<close>

definition has_numeric :: "nat \<Rightarrow> nat \<Rightarrow> cell list \<Rightarrow> bool" where
  "has_numeric tc nc r =
     (let first_metric = (if tc + 1 < nc then cell_at r (tc + 1) else Blank) in
      if is_numeric_cell first_metric then True
      else if tc + 1 < nc
        then list_ex (\<lambda>j. is_numeric_cell (cell_at r j)) [tc + 1..<min (tc + 6) nc]
        else False)"

text \<open>Truthiness of \<^verbatim>\<open>current_indication\<close>: neither \<^verbatim>\<open>None\<close> nor the empty string.\<close>

definition truthy :: "string option \<Rightarrow> bool" where
  "truthy cur = (case cur of None \<Rightarrow> False | Some s \<Rightarrow> s \<noteq> [])"

definition is_data_row :: "string option \<Rightarrow> nat \<Rightarrow> nat \<Rightarrow> cell list \<Rightarrow> string \<Rightarrow> bool" where
  "is_data_row cur tc nc r type_str =
     (if has_numeric tc nc r then True
      else if truthy cur \<and> type_str \<noteq> ''Total patients (UNIQUE)''
              \<and> type_str \<noteq> ''Other, please specify''
        then \<not> looks_like_indication_section type_str
        else False)"

section \<open>Record extractor\<close>

text \<open>
  One extracted row is the dict \<^verbatim>\<open>{"Indication": ..., "Type": ..., h: float, ...}\<close>. The
  two key entries are fields of their own; an assignment \<^verbatim>\<open>row[h] = v\<close> with a header
  label \<open>h\<close> equal to one of the two key names overwrites that entry, as it does in the
  dict. The other entries keep the dict's insertion order.
\<close>

datatype rowval = S string | F pyfloat

record row =
  indication :: rowval
  rtype :: rowval
  metrics :: "(string \<times> pyfloat) list"

fun dict_set :: "'k \<Rightarrow> 'v \<Rightarrow> ('k \<times> 'v) list \<Rightarrow> ('k \<times> 'v) list" where
  "dict_set k v [] = [(k, v)]"
| "dict_set k v ((k', v') # d) =
     (if k = k' then (k, v) # d else (k', v') # dict_set k v d)"

definition row_set :: "string \<Rightarrow> pyfloat \<Rightarrow> row \<Rightarrow> row" where
  "row_set h v rw =
     (if h = ''Indication'' then rw\<lparr>indication := F v\<rparr>
      else if h = ''Type'' then rw\<lparr>rtype := F v\<rparr>
      else rw\<lparr>metrics := dict_set h v (metrics rw)\<rparr>)"

text \<open>
  The inner loop over the header columns right of the key column; it stops at the width
  of the grid and passes over columns without a label.
\<close>

definition fill_metrics :: "nat \<Rightarrow> nat \<Rightarrow> string list \<Rightarrow> cell list \<Rightarrow> row \<Rightarrow> row" where
  "fill_metrics tc nc headers r rw =
     foldl (\<lambda>acc j. if headers ! j = [] then acc
                     else row_set (headers ! j) (float_or_zero (cell_at r j)) acc)
           rw [tc + 1..<min (length headers) nc]"

text \<open>
  The tail of the loop body for a data row: \<open>None\<close> is the \<^verbatim>\<open>continue\<close> for the
  placeholder label, otherwise the label under which the row is stored.
\<close>

definition stored_type :: "string \<Rightarrow> string option" where
  "stored_type type_str =
     (let canonical_type = normalize_drug_name type_str in
      if canonical_type = None \<and> type_str = ''Other, please specify'' then None
      else (case canonical_type of
              None \<Rightarrow> Some type_str
            | Some c \<Rightarrow> if c \<noteq> [] then Some c else Some type_str))"

definition make_row :: "string \<Rightarrow> string \<Rightarrow> nat \<Rightarrow> nat \<Rightarrow> string list \<Rightarrow> cell list \<Rightarrow> row" where
  "make_row ind typ tc nc headers r =
     fill_metrics tc nc headers r \<lparr>indication = S ind, rtype = S typ, metrics = []\<rparr>"

text \<open>
  One iteration of the primary loop. The state is \<^verbatim>\<open>current_indication\<close> and the list
  \<^verbatim>\<open>rows\<close>.
\<close>

definition primary_step ::
  "nat \<Rightarrow> nat \<Rightarrow> string list \<Rightarrow> string option \<times> row list \<Rightarrow> cell list
     \<Rightarrow> string option \<times> row list" where
  "primary_step tc nc headers st r =
     (let current_indication = fst st; rows = snd st in
      case key_label tc nc r of
        None \<Rightarrow> st
      | Some type_str \<Rightarrow>
          if is_data_row current_indication tc nc r type_str then
            (case current_indication of
               None \<Rightarrow> st
             | Some ind \<Rightarrow>
                 (case stored_type type_str of
                    None \<Rightarrow> st
                  | Some typ \<Rightarrow>
                      (current_indication, rows @ [make_row ind typ tc nc headers r])))
          else if looks_like_indication_section type_str
                  \<and> \<not> contains (lower type_str) ''total patients''
            then (Some type_str, rows)
            else st)"

definition primary_pass :: "grid \<Rightarrow> nat \<Rightarrow> nat \<Rightarrow> string option \<times> row list" where
  "primary_pass g header_row tc =
     foldl (primary_step tc (ncols g) (header_labels (ncols g) (g ! header_row)))
           (None, []) (drop (header_row + 1) g)"

text \<open>One iteration of the fallback loop: header row 0, key column 0.\<close>

definition fallback_step ::
  "nat \<Rightarrow> string list \<Rightarrow> string \<times> row list \<Rightarrow> cell list \<Rightarrow> string \<times> row list" where
  "fallback_step nc headers_fb st r =
     (let current_indication_fb = fst st; rows = snd st;
          type_val = (if 0 < nc then cell_at r 0 else Blank) in
      if isna type_val then st
      else let type_str = strip (py_str type_val) in
        if type_str = [] \<or> lower type_str \<in> set skip_type_values then st
        else if \<not> list_ex (\<lambda>j. is_numeric_cell (cell_at r j)) [1..<nc] then
          (if \<not> is_numeric_cell type_val \<and> \<not> contains (lower type_str) ''patients''
              \<and> \<not> startswith type_str ''Total''
           then (type_str, rows) else st)
        else (case stored_type type_str of
                None \<Rightarrow> st
              | Some typ \<Rightarrow>
                  (current_indication_fb,
                   rows @ [make_row current_indication_fb typ 0 nc headers_fb r])))"

definition fallback_pass :: "grid \<Rightarrow> string \<times> row list" where
  "fallback_pass g =
     foldl (fallback_step (ncols g) (header_labels (ncols g) (g ! 0)))
           (''Details'', []) (drop 1 g)"

section \<open>Data frames\<close>

text \<open>
  A frame has the names of its index levels, its column labels and one entry per row:
  the index key and the values under the columns. \<^verbatim>\<open>pd.DataFrame()\<close> is the frame with one
  unnamed index level, no column and no row; \<^verbatim>\<open>df.empty\<close> holds when there is no row or
  no column.
\<close>

record 'k frame =
  index_names :: "string option list"
  fcolumns :: "string list"
  fentries :: "('k \<times> pyfloat list) list"

definition empty_frame :: "'k frame" where
  "empty_frame = \<lparr>index_names = [None], fcolumns = [], fentries = []\<rparr>"

definition findex :: "'k frame \<Rightarrow> 'k list" where
  "findex df = map fst (fentries df)"

definition df_empty :: "'k frame \<Rightarrow> bool" where
  "df_empty df = (fentries df = [] \<or> fcolumns df = [])"

text \<open>
  The order of index keys under \<^verbatim>\<open>sort_index\<close>: level by level, text by code points,
  numbers by value with NaN last. Every extracted row carries the same header labels, so
  one level never mixes text and numbers; the model puts text first.
\<close>

fun float_le :: "pyfloat \<Rightarrow> pyfloat \<Rightarrow> bool" where
  "float_le x NaN = True"
| "float_le NaN y = False"
| "float_le NegInf y = True"
| "float_le x PosInf = True"
| "float_le (Fin a) (Fin b) = (a \<le> b)"
| "float_le x y = False"

fun rowval_le :: "rowval \<Rightarrow> rowval \<Rightarrow> bool" where
  "rowval_le (S a) (S b) = str_le a b"
| "rowval_le (F x) (F y) = float_le x y"
| "rowval_le (S a) (F y) = True"
| "rowval_le (F x) (S b) = False"

definition key_le :: "rowval \<times> rowval \<Rightarrow> rowval \<times> rowval \<Rightarrow> bool" where
  "key_le k1 k2 =
     (if fst k1 = fst k2 then rowval_le (snd k1) (snd k2)
      else rowval_le (fst k1) (fst k2))"

fun insert_entry ::
  "('k \<Rightarrow> 'k \<Rightarrow> bool) \<Rightarrow> 'k \<times> 'v \<Rightarrow> ('k \<times> 'v) list \<Rightarrow> ('k \<times> 'v) list" where
  "insert_entry le e [] = [e]"
| "insert_entry le e (x # xs) =
     (if le (fst e) (fst x) then e # x # xs else x # insert_entry le e xs)"

definition sort_entries :: "('k \<Rightarrow> 'k \<Rightarrow> bool) \<Rightarrow> ('k \<times> 'v) list \<Rightarrow> ('k \<times> 'v) list" where
  "sort_entries le es = foldr (insert_entry le) es []"

text \<open>
  \<^verbatim>\<open>pd.DataFrame(rows).set_index(["Indication", "Type"]).sort_index()\<close>: the columns are
  the metric labels in the order in which the rows first mention them, a label a row
  lacks reads NaN, and no two rows are merged.
\<close>

definition row_columns :: "row list \<Rightarrow> string list" where
  "row_columns rows = rev (remdups (rev (concat (map (map fst \<circ> metrics) rows))))"

definition row_entry :: "string list \<Rightarrow> row \<Rightarrow> (rowval \<times> rowval) \<times> pyfloat list" where
  "row_entry cols rw =
     ((indication rw, rtype rw),
      map (\<lambda>c. case map_of (metrics rw) c of None \<Rightarrow> NaN | Some v \<Rightarrow> v) cols)"

definition frame_of_rows :: "row list \<Rightarrow> (rowval \<times> rowval) frame" where
  "frame_of_rows rows =
     \<lparr>index_names = [Some ''Indication'', Some ''Type''],
      fcolumns = row_columns rows,
      fentries = sort_entries key_le (map (row_entry (row_columns rows)) rows)\<rparr>"

section \<open>Extraction\<close>

text \<open>
  \<open>collect_rows\<close> is \<^verbatim>\<open>parse_details_sheet\<close> up to the list \<^verbatim>\<open>rows\<close>; the flag tells
  whether the fallback loop was entered. The two early returns leave before the fallback.
\<close>

definition collect_rows :: "grid \<Rightarrow> bool \<times> row list" where
  "collect_rows g =
     (if nrows g = 0 \<or> ncols g = 0 \<or> nrows g < 2 then (False, [])
      else case find_header g of
        None \<Rightarrow> (False, [])
      | Some (header_row, tc) \<Rightarrow>
          (let rows = snd (primary_pass g header_row tc) in
           if rows = [] \<and> 2 \<le> nrows g \<and> 2 \<le> ncols g
           then (True, snd (fallback_pass g))
           else (False, rows)))"

definition parse_details_sheet :: "grid \<Rightarrow> (rowval \<times> rowval) frame" where
  "parse_details_sheet g =
     (let rows = snd (collect_rows g) in
      if rows = [] then empty_frame else frame_of_rows rows)"

section \<open>Reconciler\<close>





text \<open>
  \<^verbatim>\<open>df.at[key, col]\<close> (and \<^verbatim>\<open>df.loc[key, col]\<close>): the value when the key and the column
  each occur once; \<open>None\<close> when the result is no scalar, on which \<^verbatim>\<open>float\<close> raises.
\<close>

definition frame_at :: "'k frame \<Rightarrow> 'k \<Rightarrow> string \<Rightarrow> pyfloat option" where
  "frame_at df key col =
     (case filter (\<lambda>e. fst e = key) (fentries df) of
        [e] \<Rightarrow>
          (case filter (\<lambda>j. fcolumns df ! j = col) [0..<length (fcolumns df)] of
             [j] \<Rightarrow> Some (if j < length (snd e) then snd e ! j else NaN)
           | _ \<Rightarrow> None)
      | _ \<Rightarrow> None)"













section \<open>Coordinate index\<close>

text \<open>
  \<^verbatim>\<open>get_details_sheet_row_col_map\<close> on the grid of the sheet. Both maps are dicts in
  insertion order. Its row loop is the primary loop of the extraction, storing the row
  index instead of a record.
\<close>

type_synonym row_map = "((string \<times> string) \<times> nat) list"
type_synonym col_map = "(string \<times> nat) list"

definition row_map_step ::
  "nat \<Rightarrow> nat \<Rightarrow> string option \<times> row_map \<Rightarrow> nat \<times> cell list \<Rightarrow> string option \<times> row_map" where
  "row_map_step tc nc st ir =
     (let current_indication = fst st; rmap = snd st; i = fst ir; r = snd ir in
      case key_label tc nc r of
        None \<Rightarrow> st
      | Some type_str \<Rightarrow>
          if is_data_row current_indication tc nc r type_str then
            (case current_indication of
               None \<Rightarrow> st
             | Some ind \<Rightarrow>
                 (case stored_type type_str of
                    None \<Rightarrow> st
                  | Some type_key \<Rightarrow> (current_indication, dict_set (ind, type_key) i rmap)))
          else if looks_like_indication_section type_str
                  \<and> \<not> contains (lower type_str) ''total patients''
            then (Some type_str, rmap)
            else st)"

definition get_details_sheet_row_col_map :: "grid \<Rightarrow> row_map \<times> col_map \<times> nat \<times> nat" where
  "get_details_sheet_row_col_map g =
     (if nrows g = 0 \<or> ncols g = 0 \<or> nrows g < 2 then ([], [], 0, 0)
      else case find_header g of
        None \<Rightarrow> ([], [], 0, 0)
      | Some (header_row, tc) \<Rightarrow>
          (let headers = header_labels (ncols g) (g ! header_row);
               cmap = foldl (\<lambda>m j. if headers ! j \<noteq> [] then dict_set (headers ! j) j m else m)
                        [] [tc + 1..<length headers];
               rmap = snd (foldl (row_map_step tc (ncols g)) (None, [])
                             (zip [header_row + 1..<nrows g] (drop (header_row + 1) g)))
           in (rmap, cmap, header_row, tc)))"

section \<open>Write-back patcher\<close>

text \<open>
  A workbook is the list of its sheets, by name; a file holds a workbook, is empty (as
  \<^verbatim>\<open>mkstemp\<close> creates it) or holds the remains of a failed save. A path is a directory
  with a file name, the file system a map from paths to files.
\<close>

type_synonym workbook = "(string \<times> grid) list"

datatype file_content = EmptyFile | PartialFile | Workbook workbook

type_synonym path = "string \<times> string"

type_synonym filesystem = "path \<Rightarrow> file_content option"

text \<open>
  What the environment decides: the name \<^verbatim>\<open>mkstemp\<close> picks, which step of the save fails
  if any, and whether the \<^verbatim>\<open>os.unlink\<close> of the clean-up fails (it is passed over).
\<close>

datatype fault = NoFault | CloseFails | SaveFails | ReplaceFails

record diagnostic =
  data_keys :: nat
  sheet_keys :: nat
  cols_matched :: nat
  data_cols :: nat
  sheet_cols :: nat
  sample_sheet :: "(string \<times> string) list"
  sample_df :: "(string \<times> string) list"
  sample_sheet_cols :: "string list"

datatype error =
  BadFrame | NoLayout | NoCellsWritten diagnostic
  | FileNotFound | BadFile | NoSuchSheet | TempExists | SaveFailed fault

text \<open>\<^verbatim>\<open>wb[sheet_name]\<close>, or \<^verbatim>\<open>wb.worksheets[1]\<close> without a name: the position of the sheet.\<close>

definition select_sheet :: "workbook \<Rightarrow> string option \<Rightarrow> nat option" where
  "select_sheet wb sheet_name =
     (case sheet_name of
        Some n \<Rightarrow> List.find (\<lambda>i. fst (wb ! i) = n) [0..<length wb]
      | None \<Rightarrow> if 2 \<le> length wb then Some 1 else None)"

text \<open>\<^verbatim>\<open>_norm\<close>: \<^verbatim>\<open>" ".join(str(s).strip().split())\<close>\<close>

fun split_ws :: "string \<Rightarrow> string \<Rightarrow> string list" where
  "split_ws w [] = (if w = [] then [] else [w])"
| "split_ws w (c # cs) =
     (if is_space c then (if w = [] then split_ws [] cs else w # split_ws [] cs)
      else split_ws (w @ [c]) cs)"

fun join_space :: "string list \<Rightarrow> string" where
  "join_space [] = []"
| "join_space [w] = w"
| "join_space (w # v # ws) = w @ '' '' @ join_space (v # ws)"

definition norm_str :: "string \<Rightarrow> string" where
  "norm_str s = join_space (split_ws [] (strip s))"

text \<open>
  \<^verbatim>\<open>_row_key_for\<close>: the exact key, else the first row of the map with the same trimmed
  type whose trimmed section contains the key's or is contained in it.
\<close>

definition row_key_for :: "row_map \<Rightarrow> string \<times> string \<Rightarrow> nat option" where
  "row_key_for rmap key =
     (case map_of rmap key of
        Some ri \<Rightarrow> Some ri
      | None \<Rightarrow>
          (case filter (\<lambda>e. strip (snd (fst e)) = strip (snd key)
                              \<and> (contains (strip (fst key)) (strip (fst (fst e)))
                                  \<or> contains (strip (fst (fst e))) (strip (fst key))))
                  rmap of
             [] \<Rightarrow> None
           | e # es \<Rightarrow> Some (snd e)))"

definition col_map_normalized :: "col_map \<Rightarrow> col_map" where
  "col_map_normalized cmap = foldl (\<lambda>d e. dict_set (strip (fst e)) (snd e) d) [] cmap"

definition col_map_fuzzy :: "col_map \<Rightarrow> col_map" where
  "col_map_fuzzy cmap = foldl (\<lambda>d e. dict_set (norm_str (fst e)) (snd e) d) [] cmap"

definition resolve_col :: "col_map \<Rightarrow> string \<Rightarrow> nat option" where
  "resolve_col cmap col_name =
     (case map_of (col_map_normalized cmap) (strip col_name) of
        Some j \<Rightarrow> Some j
      | None \<Rightarrow> map_of (col_map_fuzzy cmap) (norm_str col_name))"

text \<open>
  The value written: the float of the frame, or the int 0 for NaN and for a look-up that
  gives no scalar. \<open>fstr\<close> is \<^verbatim>\<open>str\<close> on floats, which a cell of the grid carries.
\<close>

definition value_to_write ::
  "(pyfloat \<Rightarrow> string) \<Rightarrow> (string \<times> string) frame \<Rightarrow> string \<times> string \<Rightarrow> string \<Rightarrow> cell" where
  "value_to_write fstr df key col_name =
     (case frame_at df key col_name of
        None \<Rightarrow> IntC 0
      | Some v \<Rightarrow> if v = NaN then IntC 0 else NumC v (fstr v))"

text \<open>\<^verbatim>\<open>ws.cell(row=i + 1, column=j + 1, value=v)\<close>; a cell outside the sheet is created.\<close>

definition set_cell :: "grid \<Rightarrow> nat \<Rightarrow> nat \<Rightarrow> cell \<Rightarrow> grid" where
  "set_cell g i j v =
     (let g' = g @ replicate (Suc i - length g) [];
          r = g' ! i;
          r' = r @ replicate (Suc j - length r) Blank
      in g'[i := r'[j := v]])"

definition write_row ::
  "(pyfloat \<Rightarrow> string) \<Rightarrow> col_map \<Rightarrow> (string \<times> string) frame \<Rightarrow> string \<times> string \<Rightarrow> nat
     \<Rightarrow> grid \<times> nat \<Rightarrow> grid \<times> nat" where
  "write_row fstr cmap df key ri st =
     foldl (\<lambda>acc col_name.
              case resolve_col cmap col_name of
                None \<Rightarrow> acc
              | Some j \<Rightarrow> (set_cell (fst acc) ri j (value_to_write fstr df key col_name),
                           snd acc + 1))
           st (fcolumns df)"

text \<open>The write loop: the patched sheet and \<^verbatim>\<open>written\<close>.\<close>

definition fill_cells ::
  "(pyfloat \<Rightarrow> string) \<Rightarrow> row_map \<Rightarrow> col_map \<Rightarrow> (string \<times> string) frame \<Rightarrow> grid
     \<Rightarrow> grid \<times> nat" where
  "fill_cells fstr rmap cmap df ws =
     foldl (\<lambda>acc key.
              case row_key_for rmap key of
                None \<Rightarrow> acc
              | Some ri \<Rightarrow> write_row fstr cmap df key ri acc)
           (ws, 0) (findex df)"

text \<open>
  The payload of the error for no cell written. The two samples of keys are the first
  three elements of a Python set, whose order is not fixed; the model takes them in the
  order of the map and of the index.
\<close>

definition no_cells_diagnostic ::
  "row_map \<Rightarrow> col_map \<Rightarrow> (string \<times> string) frame \<Rightarrow> diagnostic" where
  "no_cells_diagnostic rmap cmap df =
     \<lparr>data_keys = length (remdups (findex df)),
      sheet_keys = length rmap,
      cols_matched =
        length (filter (\<lambda>c. map_of (col_map_normalized cmap) (strip c) \<noteq> None) (fcolumns df)),
      data_cols = length (fcolumns df),
      sheet_cols = length (col_map_normalized cmap),
      sample_sheet = take 3 (map fst rmap),
      sample_df = take 3 (remdups (findex df)),
      sample_sheet_cols = take 5 (map fst (col_map_normalized cmap))\<rparr>"

text \<open>
  The save: a temporary file in the directory of the target, the workbook saved into it,
  and the target replaced by it; on an exception the temporary file is removed and the
  exception raised again. \<^verbatim>\<open>os.replace\<close> either replaces the target or fails and changes
  nothing.
\<close>

definition cleanup :: "bool \<Rightarrow> filesystem \<Rightarrow> path \<Rightarrow> filesystem" where
  "cleanup unlink_fails fs tmp_path =
     (if fs tmp_path \<noteq> None \<and> \<not> unlink_fails then fs(tmp_path := None) else fs)"

definition save_workbook ::
  "string \<Rightarrow> fault \<Rightarrow> bool \<Rightarrow> filesystem \<Rightarrow> path \<Rightarrow> workbook \<Rightarrow> error option \<times> filesystem" where
  "save_workbook tmp_name flt unlink_fails fs abs_path wb =
     (let dirpath = (if fst abs_path = [] then ''.'' else fst abs_path);
          tmp_path = (dirpath, tmp_name)
      in if fs tmp_path \<noteq> None then (Some TempExists, fs)
         else let fs1 = fs(tmp_path \<mapsto> EmptyFile) in
           case flt of
             CloseFails \<Rightarrow> (Some (SaveFailed CloseFails), cleanup unlink_fails fs1 tmp_path)
           | SaveFails \<Rightarrow>
               (Some (SaveFailed SaveFails),
                cleanup unlink_fails (fs1(tmp_path \<mapsto> PartialFile)) tmp_path)
           | ReplaceFails \<Rightarrow>
               (Some (SaveFailed ReplaceFails),
                cleanup unlink_fails (fs1(tmp_path \<mapsto> Workbook wb)) tmp_path)
           | NoFault \<Rightarrow> (None, (fs1(tmp_path := None))(abs_path \<mapsto> Workbook wb)))"

text \<open>
  \<^verbatim>\<open>fill_details_sheet_to_excel\<close>: the result, or the exception raised, and the file
  system afterwards.
\<close>

definition fill_details_sheet_to_excel ::
  "(pyfloat \<Rightarrow> string) \<Rightarrow> string \<Rightarrow> fault \<Rightarrow> bool \<Rightarrow> filesystem \<Rightarrow> path
     \<Rightarrow> (string \<times> string) frame \<Rightarrow> string option \<Rightarrow> (error + nat) \<times> filesystem" where
  "fill_details_sheet_to_excel fstr tmp_name flt unlink_fails fs filepath details_df sheet_name =
     (if df_empty details_df \<or> index_names details_df = []
         \<or> index_names details_df \<noteq> [Some ''Indication'', Some ''Type'']
      then (Inl BadFrame, fs)
      else case fs filepath of
        None \<Rightarrow> (Inl FileNotFound, fs)
      | Some EmptyFile \<Rightarrow> (Inl BadFile, fs)
      | Some PartialFile \<Rightarrow> (Inl BadFile, fs)
      | Some (Workbook wb) \<Rightarrow>
          (case select_sheet wb sheet_name of
             None \<Rightarrow> (Inl NoSuchSheet, fs)
           | Some k \<Rightarrow>
               (let ws = snd (wb ! k);
                    rmap = fst (get_details_sheet_row_col_map ws);
                    cmap = fst (snd (get_details_sheet_row_col_map ws))
                in if rmap = [] \<or> cmap = [] then (Inl NoLayout, fs)
                   else let ws' = fst (fill_cells fstr rmap cmap details_df ws);
                            written = snd (fill_cells fstr rmap cmap details_df ws)
                     in if written = 0
                        then (Inl (NoCellsWritten (no_cells_diagnostic rmap cmap details_df)), fs)
                        else (case save_workbook tmp_name flt unlink_fails fs filepath
                                     (wb[k := (fst (wb ! k), ws')]) of
                                (Some e, fs') \<Rightarrow> (Inl e, fs')
                              | (None, fs') \<Rightarrow> (Inr written, fs')))))"

section \<open>Concrete sheets\<close>

text \<open>
  The scenario of the specification: two rows above the header row, which is row 2; the
  argument is the value of an empty cell.
\<close>

definition scenario_grid :: "cell \<Rightarrow> grid" where
  "scenario_grid e =
     [[e, e, e, e],
      [e, e, e, e],
      [Txt ''Type'', Txt ''Metric1'', Txt ''Metric2'', Txt ''Metric3''],
      [Txt ''Category X'', e, e, e],
      [Txt ''Widget A'', IntC 10, IntC 2, IntC 8],
      [e, e, e, e],
      [Txt ''Category Y'', e, e, e],
      [Txt ''Widget A'', IntC 0, IntC 0, IntC 0]]"

definition scenario_records :: "(rowval \<times> rowval) frame" where
  "scenario_records =
     \<lparr>index_names = [Some ''Indication'', Some ''Type''],
      fcolumns = [''Metric1'', ''Metric2'', ''Metric3''],
      fentries = [((S ''Category X'', S ''Widget A''), [Fin 10, Fin 2, Fin 8]),
                  ((S ''Category Y'', S ''Widget A''), [Fin 0, Fin 0, Fin 0])]\<rparr>"

definition scenario_keys_only :: "(rowval \<times> rowval) frame" where
  "scenario_keys_only =
     \<lparr>index_names = [Some ''Indication'', Some ''Type''],
      fcolumns = [],
      fentries = [((S ''Category X'', S ''Widget A''), []),
                  ((S ''Category Y'', S ''Widget A''), [])]\<rparr>"

text \<open>A section with a row whose label contains the placeholder alias and has a number.\<close>

definition placeholder_grid :: grid where
  "placeholder_grid =
     [[Txt ''Type'', Txt ''Metric1''],
      [Txt ''SGA'', Blank],
      [Txt ''Other, please specify: brand Z'', IntC 5],
      [Txt ''Other, please specify'', IntC 7]]"

text \<open>A section in which one label occurs on two rows.\<close>

definition repeated_grid :: grid where
  "repeated_grid =
     [[Txt ''Type'', Txt ''Metric1''],
      [Txt ''SGA'', Blank],
      [Txt ''Drug A'', IntC 1],
      [Txt ''Drug A'', IntC 2]]"

text \<open>A row whose only number is in the sixth cell right of the key column.\<close>

definition sixth_cell_row :: "cell list" where
  "sixth_cell_row = [Txt ''Drug A'', Blank, Blank, Blank, Blank, Blank, IntC 5]"

text \<open>A rollup row with a number, and a sheet of one column.\<close>

definition total_row :: "cell list" where
  "total_row = [Txt ''Total patients (UNIQUE)'', IntC 50]"

definition one_column_grid :: grid where
  "one_column_grid = [[Txt ''Type''], [Txt ''Drug A'']]"



text \<open>
  A workbook whose second sheet has the details layout, a file system that holds it, and
  a record table of which one key and one column match the sheet.
\<close>

definition details_workbook :: workbook where
  "details_workbook =
     [(''Overview'', []),
      (''Details'', [[Txt ''Type'', Txt ''Total''],
                     [Txt ''SGA'', Blank],
                     [Txt ''Drug A'', IntC 1],
                     [Txt ''Drug B'', Blank]])]"

definition target_path :: path where
  "target_path = (''/reports'', ''new.xlsx'')"

definition target_fs :: filesystem where
  "target_fs = [target_path \<mapsto> Workbook details_workbook]"

definition details_table :: "(string \<times> string) frame" where
  "details_table =
     \<lparr>index_names = [Some ''Indication'', Some ''Type''],
      fcolumns = [''Total'', ''Extra''],
      fentries = [((''SGA'', ''Drug A''), [Fin 5, Fin 1]),
                  ((''pGHD'', ''Drug Z''), [Fin 7, Fin 2])]\<rparr>"


section \<open>Properties\<close>

subsection \<open>Auxiliary facts\<close>

lemma foldl_invariant:
  assumes "I s" and "\<And>s x. I s \<Longrightarrow> I (f s x)"
  shows "I (foldl f s xs)"
  using assms(1) by (induction xs arbitrary: s) (auto intro: assms(2))

lemma dropWhile_rev_keep_hd:
  assumes "xs \<noteq> []" "\<not> P (hd xs)"
  shows "rev (dropWhile P (rev xs)) \<noteq> [] \<and> hd (rev (dropWhile P (rev xs))) = hd xs"
proof -
  obtain x ys where xs: "xs = x # ys" using assms(1) by (cases xs) auto
  with assms(2) show ?thesis by (auto simp: dropWhile_append)
qed

lemma strip_idem: "strip (strip s) = strip s"
proof -
  let ?a = "dropWhile is_space s"
  let ?t = "rev (dropWhile is_space (rev ?a))"
  have t: "strip s = ?t" by (simp add: strip_def)
  have 1: "dropWhile is_space ?t = ?t"
  proof (cases "?a = []")
    case True
    have "rev (dropWhile is_space (rev [])) = ([]::string)" by simp
    then have e: "?t = []" by (simp only: True)
    show ?thesis by (simp only: e dropWhile.simps)
  next
    case False
    then have "\<not> is_space (hd ?a)" by (rule hd_dropWhile)
    with False have "?t \<noteq> [] \<and> hd ?t = hd ?a" by (rule dropWhile_rev_keep_hd)
    with \<open>\<not> is_space (hd ?a)\<close> show ?thesis by (cases ?t) auto
  qed
  have "strip ?t = rev (dropWhile is_space (rev (dropWhile is_space ?t)))"
    by (simp only: strip_def)
  also have "\<dots> = rev (dropWhile is_space (rev ?t))" by (simp only: 1)
  also have "\<dots> = ?t" by (simp add: dropWhile_idem)
  finally show ?thesis by (simp only: t)
qed

lemma isna_Blank [simp]: "isna Blank"
  by (simp add: isna_def)

lemma not_numeric_Blank [simp]: "\<not> is_numeric_cell Blank"
  by (simp add: is_numeric_cell_def)

subsection \<open>The placeholder label\<close>

lemma first_alias_placeholder: "first_alias DRUG_ALIASES ''Other, please specify'' = Some None"
  by code_simp

lemma first_alias_cases:
  "first_alias DRUG_ALIASES s = Some c \<Longrightarrow> c = None \<or> c = Some ''Ngenla (Pfizer)''"
  by (auto simp: DRUG_ALIASES_def split: if_splits)

lemma stored_type_not_placeholder:
  assumes "stored_type s = Some t"
  shows "t \<noteq> ''Other, please specify''"
proof
  assume t: "t = ''Other, please specify''"
  show False
  proof (cases "first_alias DRUG_ALIASES (strip s)")
    case None
    then have n: "normalize_drug_name s = (if strip s \<noteq> [] then Some (strip s) else None)"
      by (simp add: normalize_drug_name_def)
    from assms t n have "strip s = ''Other, please specify'' \<or> s = ''Other, please specify''"
      by (auto simp: stored_type_def split: if_splits option.splits)
    then have "strip s = ''Other, please specify''"
      by (auto simp: strip_def is_space_def)
    with None first_alias_placeholder show False by simp
  next
    case (Some c)
    then have n: "normalize_drug_name s = c" by (simp add: normalize_drug_name_def)
    from first_alias_cases[OF Some] assms t n show False
      by (auto simp: stored_type_def split: if_splits)
  qed
qed

lemma rtype_row_set:
  "rtype (row_set h v rw) = rtype rw \<or> (\<exists>x. rtype (row_set h v rw) = F x)"
  by (simp add: row_set_def)

lemma rtype_fill_metrics:
  "rtype (fill_metrics tc nc hs r rw) = rtype rw
     \<or> (\<exists>x. rtype (fill_metrics tc nc hs r rw) = F x)"
  unfolding fill_metrics_def
proof (rule foldl_invariant[where I = "\<lambda>a. rtype a = rtype rw \<or> (\<exists>x. rtype a = F x)"])
  show "rtype rw = rtype rw \<or> (\<exists>x. rtype rw = F x)" by simp
next
  fix s :: row and x
  assume "rtype s = rtype rw \<or> (\<exists>x. rtype s = F x)"
  then show "rtype (if hs ! x = [] then s
                    else row_set (hs ! x) (float_or_zero (cell_at r x)) s) = rtype rw
      \<or> (\<exists>xa. rtype (if hs ! x = [] then s
                       else row_set (hs ! x) (float_or_zero (cell_at r x)) s) = F xa)"
    using rtype_row_set[of "hs ! x" "float_or_zero (cell_at r x)" s] by auto
qed

lemma rtype_make_row:
  "stored_type s = Some t
     \<Longrightarrow> rtype (make_row ind t tc nc hs r) \<noteq> S ''Other, please specify''"
  using rtype_fill_metrics[of tc nc hs r "\<lparr>indication = S ind, rtype = S t, metrics = []\<rparr>"]
    stored_type_not_placeholder[of s t]
  by (auto simp: make_row_def)

lemma primary_step_types:
  assumes "\<forall>rw\<in>set (snd st). rtype rw \<noteq> S ''Other, please specify''"
  shows "\<forall>rw\<in>set (snd (primary_step tc nc hs st r)). rtype rw \<noteq> S ''Other, please specify''"
  using assms rtype_make_row
  by (auto simp: primary_step_def Let_def split: option.splits)

lemma fallback_step_types:
  assumes "\<forall>rw\<in>set (snd st). rtype rw \<noteq> S ''Other, please specify''"
  shows "\<forall>rw\<in>set (snd (fallback_step nc hs st r)). rtype rw \<noteq> S ''Other, please specify''"
  using assms rtype_make_row
  by (auto simp: fallback_step_def Let_def split: option.splits)

lemma collect_rows_types:
  "\<forall>rw\<in>set (snd (collect_rows g)). rtype rw \<noteq> S ''Other, please specify''"
proof -
  have p: "\<forall>rw\<in>set (snd (primary_pass g hr tc)). rtype rw \<noteq> S ''Other, please specify''"
    for hr tc
    unfolding primary_pass_def
    by (rule foldl_invariant[where
          I = "\<lambda>st. \<forall>rw\<in>set (snd st). rtype rw \<noteq> S ''Other, please specify''"])
       (simp, rule primary_step_types)
  have f: "\<forall>rw\<in>set (snd (fallback_pass g)). rtype rw \<noteq> S ''Other, please specify''"
    unfolding fallback_pass_def
    by (rule foldl_invariant[where
          I = "\<lambda>st. \<forall>rw\<in>set (snd st). rtype rw \<noteq> S ''Other, please specify''"])
       (simp, rule fallback_step_types)
  show ?thesis using p f
    by (auto simp: collect_rows_def Let_def split: option.splits prod.splits if_splits)
qed

subsection \<open>The index of the extracted frame\<close>

lemma mset_insert_entry: "mset (insert_entry le e xs) = add_mset e (mset xs)"
  by (induction xs) auto

lemma mset_sort_entries: "mset (sort_entries le es) = mset es"
  unfolding sort_entries_def by (induction es) (auto simp: mset_insert_entry)

lemma findex_frame_of_rows:
  "mset (findex (frame_of_rows rows)) = mset (map (\<lambda>rw. (indication rw, rtype rw)) rows)"
proof -
  let ?es = "map (row_entry (row_columns rows)) rows"
  have k: "map fst ?es = map (\<lambda>rw. (indication rw, rtype rw)) rows"
    by (simp add: row_entry_def)
  have "mset (map fst (sort_entries key_le ?es))
        = image_mset fst (mset (sort_entries key_le ?es))"
    by (simp only: mset_map)
  also have "\<dots> = image_mset fst (mset ?es)" by (simp only: mset_sort_entries)
  also have "\<dots> = mset (map fst ?es)" by (simp only: mset_map)
  finally have m: "mset (map fst (sort_entries key_le ?es)) = mset (map fst ?es)" .
  have e: "findex (frame_of_rows rows) = map fst (sort_entries key_le ?es)"
    by (simp add: findex_def frame_of_rows_def)
  show ?thesis by (simp only: e m k)
qed

lemma findex_parse:
  "mset (findex (parse_details_sheet g))
   = mset (map (\<lambda>rw. (indication rw, rtype rw)) (snd (collect_rows g)))"
  by (simp add: parse_details_sheet_def Let_def findex_frame_of_rows)
     (simp add: findex_def empty_frame_def)

subsection \<open>Which pass fills the list of rows\<close>

lemma collect_rows_fallback:
  assumes "find_header g = Some (hr, tc)" and "fst (primary_pass g hr tc) = cur"
    and "snd (primary_pass g hr tc) = []" and "2 \<le> nrows g" and "2 \<le> ncols g"
    and "fallback_pass g = (cur_fb, rows)"
  shows "collect_rows g = (True, rows)"
  using assms by (simp add: collect_rows_def)

lemma collect_rows_primary:
  assumes "find_header g = Some (hr, tc)" and "primary_pass g hr tc = (cur, rows)"
    and "rows \<noteq> []" and "2 \<le> nrows g" and "0 < ncols g"
  shows "collect_rows g = (False, rows)"
  using assms by (simp add: collect_rows_def)

lemma parse_of_rows:
  assumes "collect_rows g = (b, rows)" and "rows \<noteq> []"
  shows "parse_details_sheet g = frame_of_rows rows"
  using assms by (simp add: parse_details_sheet_def)

subsection \<open>C1: the scenario of the specification\<close>

lemma scenario_frame_keys_only:
  "frame_of_rows
     [\<lparr>indication = S ''Category X'', rtype = S ''Widget A'', metrics = []\<rparr>,
      \<lparr>indication = S ''Category Y'', rtype = S ''Widget A'', metrics = []\<rparr>]
   = scenario_keys_only"
  by code_simp

lemma scenario_find_header: "find_header (scenario_grid Blank) = Some (2, 0)"
  by code_simp

lemma scenario_primary: "primary_pass (scenario_grid Blank) 2 0 = (None, [])"
  by code_simp

lemma scenario_size: "nrows (scenario_grid e) = 8 \<and> ncols (scenario_grid e) = 4"
  by (simp add: scenario_grid_def nrows_def ncols_def)

lemma scenario_fallback:
  "fallback_pass (scenario_grid Blank)
     = (''Category Y'',
        [\<lparr>indication = S ''Category X'', rtype = S ''Widget A'', metrics = []\<rparr>,
         \<lparr>indication = S ''Category Y'', rtype = S ''Widget A'', metrics = []\<rparr>])"
  by code_simp

lemma scenario_collect:
  "collect_rows (scenario_grid Blank)
   = (True, [\<lparr>indication = S ''Category X'', rtype = S ''Widget A'', metrics = []\<rparr>,
             \<lparr>indication = S ''Category Y'', rtype = S ''Widget A'', metrics = []\<rparr>])"
  by (rule collect_rows_fallback[OF scenario_find_header _ _ _ _ scenario_fallback])
     (simp_all add: scenario_primary scenario_size)

lemma scenario_parse: "parse_details_sheet (scenario_grid Blank) = scenario_keys_only"
  using parse_of_rows[OF scenario_collect] by (simp add: scenario_frame_keys_only)

text \<open>
  C1, as stated, fails. On the scenario grid with blank rows 0 and 1 above the header row,
  extraction does not return the two records with their metric values.
\<close>

theorem scenario_counterexample:
  "parse_details_sheet (scenario_grid Blank) \<noteq> scenario_records"
  by (simp add: scenario_parse scenario_keys_only_def scenario_records_def)

text \<open>
  C1, amended. On the scenario grid the header is found at row 2, column 0; the primary
  pass sets no section and emits nothing, since neither ``Category X'' nor ``Category Y''
  carries a section marker; the fallback pass runs and yields exactly the two keys
  (Category X, Widget A) and (Category Y, Widget A) with no metric column, because it reads
  the metric labels from row 0, which is blank. This holds for empty cells given as NaN and
  as empty text, and with one blank row above the header row instead of two. The two
  records with Metric1, Metric2, Metric3 equal to 10, 2, 8 and 0, 0, 0 are what extraction
  returns when the header row is row 0 of the grid.
\<close>

theorem scenario_extraction:
  "find_header (scenario_grid Blank) = Some (2, 0)
   \<and> primary_pass (scenario_grid Blank) 2 0 = (None, [])
   \<and> fst (collect_rows (scenario_grid Blank)) = True
   \<and> parse_details_sheet (scenario_grid Blank) = scenario_keys_only
   \<and> parse_details_sheet (scenario_grid (Txt [])) = scenario_keys_only
   \<and> parse_details_sheet (drop 1 (scenario_grid Blank)) = scenario_keys_only
   \<and> parse_details_sheet (drop 2 (scenario_grid Blank)) = scenario_records"
proof -
  have 3: "fst (collect_rows (scenario_grid Blank)) = True"
    by (simp add: scenario_collect)
  have 5: "parse_details_sheet (scenario_grid (Txt [])) = scenario_keys_only"
  proof -
    have h: "find_header (scenario_grid (Txt [])) = Some (2, 0)" by code_simp
    have p: "primary_pass (scenario_grid (Txt [])) 2 0 = (None, [])" by code_simp
    have fb: "fallback_pass (scenario_grid (Txt []))
       = (''Category Y'',
          [\<lparr>indication = S ''Category X'', rtype = S ''Widget A'', metrics = []\<rparr>,
           \<lparr>indication = S ''Category Y'', rtype = S ''Widget A'', metrics = []\<rparr>])"
      by code_simp
    have "collect_rows (scenario_grid (Txt []))
       = (True, [\<lparr>indication = S ''Category X'', rtype = S ''Widget A'', metrics = []\<rparr>,
                 \<lparr>indication = S ''Category Y'', rtype = S ''Widget A'', metrics = []\<rparr>])"
      by (rule collect_rows_fallback[OF h _ _ _ _ fb]) (simp_all add: p scenario_size)
    from parse_of_rows[OF this] show ?thesis by (simp add: scenario_frame_keys_only)
  qed
  have 7: "parse_details_sheet (drop 1 (scenario_grid Blank)) = scenario_keys_only"
  proof -
    have h: "find_header (drop 1 (scenario_grid Blank)) = Some (1, 0)" by code_simp
    have p: "primary_pass (drop 1 (scenario_grid Blank)) 1 0 = (None, [])" by code_simp
    have fb: "fallback_pass (drop 1 (scenario_grid Blank))
       = (''Category Y'',
          [\<lparr>indication = S ''Category X'', rtype = S ''Widget A'', metrics = []\<rparr>,
           \<lparr>indication = S ''Category Y'', rtype = S ''Widget A'', metrics = []\<rparr>])"
      by code_simp
    have p1: "fst (primary_pass (drop 1 (scenario_grid Blank)) 1 0) = None"
      by (simp only: p fst_conv)
    have p2: "snd (primary_pass (drop 1 (scenario_grid Blank)) 1 0) = []"
      by (simp only: p snd_conv)
    have n1: "2 \<le> nrows (drop 1 (scenario_grid Blank))"
      by (simp add: scenario_grid_def nrows_def)
    have n2: "2 \<le> ncols (drop 1 (scenario_grid Blank))"
      by (simp add: scenario_grid_def ncols_def)
    have "collect_rows (drop 1 (scenario_grid Blank))
       = (True, [\<lparr>indication = S ''Category X'', rtype = S ''Widget A'', metrics = []\<rparr>,
                 \<lparr>indication = S ''Category Y'', rtype = S ''Widget A'', metrics = []\<rparr>])"
      by (rule collect_rows_fallback[OF h p1 p2 n1 n2 fb])
    from parse_of_rows[OF this] show ?thesis by (simp add: scenario_frame_keys_only)
  qed
  have 6: "parse_details_sheet (drop 2 (scenario_grid Blank)) = scenario_records"
  proof -
    let ?rows = "[\<lparr>indication = S ''Category X'', rtype = S ''Widget A'',
                    metrics = [(''Metric1'', Fin 10), (''Metric2'', Fin 2), (''Metric3'', Fin 8)]\<rparr>,
                  \<lparr>indication = S ''Category Y'', rtype = S ''Widget A'',
                    metrics = [(''Metric1'', Fin 0), (''Metric2'', Fin 0), (''Metric3'', Fin 0)]\<rparr>]"
    have h: "find_header (drop 2 (scenario_grid Blank)) = Some (0, 0)" by code_simp
    have p: "primary_pass (drop 2 (scenario_grid Blank)) 0 0 = (None, [])" by code_simp
    have fb: "fallback_pass (drop 2 (scenario_grid Blank)) = (''Category Y'', ?rows)"
      by code_simp
    have sz: "nrows (drop 2 (scenario_grid Blank)) = 6 \<and> ncols (drop 2 (scenario_grid Blank)) = 4"
      by (simp add: scenario_grid_def nrows_def ncols_def)
    have c: "collect_rows (drop 2 (scenario_grid Blank)) = (True, ?rows)"
      by (rule collect_rows_fallback[OF h _ _ _ _ fb]) (simp_all add: p sz)
    have f: "frame_of_rows ?rows = scenario_records" by code_simp
    from parse_of_rows[OF c] show ?thesis by (simp add: f)
  qed
  from scenario_find_header scenario_primary 3 scenario_parse 5 7 6 show ?thesis
    by (intro conjI)
qed

subsection \<open>C2: the exclude sentinel\<close>

lemma placeholder_grid_index:
  "findex (parse_details_sheet placeholder_grid)
   = [(S ''SGA'', S ''Other, please specify: brand Z'')]"
proof -
  let ?rows = "[\<lparr>indication = S ''SGA'', rtype = S ''Other, please specify: brand Z'',
                  metrics = [(''Metric1'', Fin 5)]\<rparr>]"
  have h: "find_header placeholder_grid = Some (0, 0)" by code_simp
  have p: "primary_pass placeholder_grid 0 0 = (Some ''SGA'', ?rows)" by code_simp
  have sz: "nrows placeholder_grid = 4 \<and> ncols placeholder_grid = 2"
    by (simp add: placeholder_grid_def nrows_def ncols_def)
  have c: "collect_rows placeholder_grid = (False, ?rows)"
    by (rule collect_rows_primary[OF h p]) (simp_all add: sz)
  have f: "findex (frame_of_rows ?rows) = [(S ''SGA'', S ''Other, please specify: brand Z'')]"
    by code_simp
  from parse_of_rows[OF c] show ?thesis by (simp add: f)
qed

text \<open>
  C2, as stated, fails. The label ``Other, please specify: brand Z'' matches the alias
  whose canonical value is the exclude sentinel, and the normalizer returns the sentinel
  for it; yet the row is extracted, under its raw label.
\<close>

theorem exclusion_counterexample:
  "first_alias DRUG_ALIASES ''Other, please specify: brand Z'' = Some None
   \<and> normalize_drug_name ''Other, please specify: brand Z'' = None
   \<and> (S ''SGA'', S ''Other, please specify: brand Z'')
        \<in> set (findex (parse_details_sheet placeholder_grid))"
proof -
  have 1: "first_alias DRUG_ALIASES ''Other, please specify: brand Z'' = Some None"
    by code_simp
  have 2: "normalize_drug_name ''Other, please specify: brand Z'' = None" by code_simp
  from 1 2 placeholder_grid_index show ?thesis by simp
qed

text \<open>
  C2, amended. For every grid, no key of the extracted frame has the name
  ``Other, please specify'': a row is dropped for the sentinel only when its trimmed label
  is exactly that text, whatever its metric cells hold. Any other label for which the
  normalizer returns the sentinel is stored under its raw text.
\<close>

theorem placeholder_never_key:
  "(\<forall>k\<in>set (findex (parse_details_sheet g)). snd k \<noteq> S ''Other, please specify'')
   \<and> (\<forall>s. normalize_drug_name s = None \<and> s \<noteq> ''Other, please specify''
           \<longrightarrow> stored_type s = Some s)"
proof (intro conjI ballI allI impI)
  fix k assume "k \<in> set (findex (parse_details_sheet g))"
  then have "k \<in># mset (findex (parse_details_sheet g))" by simp
  then have "k \<in> set (map (\<lambda>rw. (indication rw, rtype rw)) (snd (collect_rows g)))"
    unfolding findex_parse by simp
  then show "snd k \<noteq> S ''Other, please specify''"
    using collect_rows_types[of g] by auto
next
  fix s assume "normalize_drug_name s = None \<and> s \<noteq> ''Other, please specify''"
  then show "stored_type s = Some s" by (simp add: stored_type_def)
qed

text \<open>The amended C2 on the sheet with the two placeholder rows.\<close>

theorem placeholder_never_key_witness:
  "(S ''SGA'', S ''Other, please specify: brand Z'')
      \<in> set (findex (parse_details_sheet placeholder_grid))
   \<and> snd (S ''SGA'', S ''Other, please specify: brand Z'') \<noteq> S ''Other, please specify''
   \<and> length (findex (parse_details_sheet placeholder_grid)) = 1
   \<and> normalize_drug_name ''Other, please specify: brand Z'' = None
   \<and> stored_type ''Other, please specify: brand Z'' = Some ''Other, please specify: brand Z''"
proof -
  have m: "(S ''SGA'', S ''Other, please specify: brand Z'')
               \<in> set (findex (parse_details_sheet placeholder_grid))"
    by (simp add: placeholder_grid_index)
  have n: "normalize_drug_name ''Other, please specify: brand Z'' = None" by code_simp
  have d: "''Other, please specify: brand Z'' \<noteq> ''Other, please specify''" by simp
  note inst = placeholder_never_key[of placeholder_grid]
  from inst m have 1: "snd (S ''SGA'', S ''Other, please specify: brand Z'')
                        \<noteq> S ''Other, please specify''"
    by blast
  from inst n d have 2: "stored_type ''Other, please specify: brand Z''
                         = Some ''Other, please specify: brand Z''"
    by blast
  have 3: "length (findex (parse_details_sheet placeholder_grid)) = 1"
    by (simp add: placeholder_grid_index)
  from m 1 3 n 2 show ?thesis by (intro conjI)
qed

subsection \<open>C3: repeated keys\<close>

text \<open>
  C3, as stated, fails. Two data rows of one section with the same label give two entries
  with the same key; the later row does not overwrite the earlier one.
\<close>

theorem unique_keys_counterexample:
  "mset (fentries (parse_details_sheet repeated_grid))
     = {#((S ''SGA'', S ''Drug A''), [Fin 1]), ((S ''SGA'', S ''Drug A''), [Fin 2])#}
   \<and> \<not> distinct (findex (parse_details_sheet repeated_grid))"
proof -
  let ?rows = "[\<lparr>indication = S ''SGA'', rtype = S ''Drug A'', metrics = [(''Metric1'', Fin 1)]\<rparr>,
                \<lparr>indication = S ''SGA'', rtype = S ''Drug A'', metrics = [(''Metric1'', Fin 2)]\<rparr>]"
  have h: "find_header repeated_grid = Some (0, 0)" by code_simp
  have p: "primary_pass repeated_grid 0 0 = (Some ''SGA'', ?rows)" by code_simp
  have sz: "nrows repeated_grid = 4 \<and> ncols repeated_grid = 2"
    by (simp add: repeated_grid_def nrows_def ncols_def)
  have c: "collect_rows repeated_grid = (False, ?rows)"
    by (rule collect_rows_primary[OF h p]) (simp_all add: sz)
  have f: "fentries (frame_of_rows ?rows)
     = [((S ''SGA'', S ''Drug A''), [Fin 1]), ((S ''SGA'', S ''Drug A''), [Fin 2])]"
    by code_simp
  from parse_of_rows[OF c] have 1: "fentries (parse_details_sheet repeated_grid)
     = [((S ''SGA'', S ''Drug A''), [Fin 1]), ((S ''SGA'', S ''Drug A''), [Fin 2])]"
    by (simp add: f)
  then show ?thesis by (simp add: findex_def)
qed

text \<open>
  C3, amended. For every grid, the extracted frame has one entry for each row the passes
  collected and merges none: its index holds the keys of the collected rows with their
  multiplicities. So its keys are unique exactly when the collected rows have pairwise
  different keys.
\<close>

theorem index_keeps_every_row:
  "mset (findex (parse_details_sheet g))
     = mset (map (\<lambda>rw. (indication rw, rtype rw)) (snd (collect_rows g)))
   \<and> (distinct (findex (parse_details_sheet g))
        \<longleftrightarrow> distinct (map (\<lambda>rw. (indication rw, rtype rw)) (snd (collect_rows g))))"
proof -
  have m: "mset (findex (parse_details_sheet g))
     = mset (map (\<lambda>rw. (indication rw, rtype rw)) (snd (collect_rows g)))"
    by (rule findex_parse)
  from m show ?thesis by (simp only: mset_eq_imp_distinct_iff[OF m] simp_thms)
qed

subsection \<open>C5: the numeric-bearing test\<close>

text \<open>
  C5, as stated, fails. In a row with a blank first metric cell and a number in the fifth
  cell after it, the test of the claim holds and the test of the classifier does not.
\<close>

theorem numeric_test_counterexample:
  "key_label 0 7 sixth_cell_row = Some ''Drug A''
   \<and> \<not> (has_numeric 0 7 sixth_cell_row \<longleftrightarrow>
          (is_numeric_cell (cell_at sixth_cell_row 1)
           \<or> (isna (cell_at sixth_cell_row 1)
               \<and> list_ex (\<lambda>j. is_numeric_cell (cell_at sixth_cell_row j)) [2..<7])))"
proof -
  have 1: "key_label 0 7 sixth_cell_row = Some ''Drug A''" by code_simp
  have 2: "\<not> has_numeric 0 7 sixth_cell_row" by code_simp
  have 3: "isna (cell_at sixth_cell_row 1)" by code_simp
  have 4: "list_ex (\<lambda>j. is_numeric_cell (cell_at sixth_cell_row j)) [2..<7]" by code_simp
  from 1 2 3 4 show ?thesis by simp
qed

text \<open>
  C5, amended. The numeric-bearing test of the primary pass holds if and only if one of
  the five cells right of the key column, as far as the grid is wide, is numeric-coercible:
  the first metric cell or one of the four cells after it. The further cells are read
  whenever the first one is not numeric, be it blank or text.
\<close>

theorem has_numeric_iff:
  "has_numeric tc nc r \<longleftrightarrow>
     (\<exists>j. tc + 1 \<le> j \<and> j < tc + 6 \<and> j < nc \<and> is_numeric_cell (cell_at r j))"
  by (auto simp: has_numeric_def Let_def list_ex_iff split: if_splits)

subsection \<open>C6: total and unique rows\<close>

lemma key_label_stripped: "key_label tc nc r = Some t \<Longrightarrow> strip t = t \<and> t \<noteq> []"
  by (auto simp: key_label_def Let_def strip_idem split: if_splits)

lemma looks_like_total:
  assumes "strip t = t" and "contains (lower t) ''total patients'' \<or> contains (lower t) ''unique''"
  shows "looks_like_indication_section t"
proof -
  from assms(2) have "lower t \<noteq> []" by auto
  with assms show ?thesis by (simp add: looks_like_indication_section_def)
qed

text \<open>
  C6, amended. In the primary pass, a row whose trimmed key text contains ``total patients''
  (in any letter case; ``Total patients (UNIQUE)'' is one) never changes the active section.
  A row whose key text contains ``total patients'' or ``unique'' is classified as a data row
  if and only if it is numeric-bearing, whatever the active section.
\<close>

theorem total_unique_rows:
  assumes "key_label tc nc r = Some t"
  shows "(contains (lower t) ''total patients''
            \<longrightarrow> fst (primary_step tc nc hs (cur, rows) r) = cur)
         \<and> (contains (lower t) ''total patients'' \<or> contains (lower t) ''unique''
            \<longrightarrow> (is_data_row cur tc nc r t \<longleftrightarrow> has_numeric tc nc r))"
proof (intro conjI impI)
  assume "contains (lower t) ''total patients''"
  with assms show "fst (primary_step tc nc hs (cur, rows) r) = cur"
    by (simp add: primary_step_def split: option.splits)
next
  assume "contains (lower t) ''total patients'' \<or> contains (lower t) ''unique''"
  with key_label_stripped[OF assms] have "looks_like_indication_section t"
    by (simp add: looks_like_total)
  then show "is_data_row cur tc nc r t \<longleftrightarrow> has_numeric tc nc r"
    by (simp add: is_data_row_def)
qed

lemma total_row_step:
  "primary_step 0 2 [''Type'', ''Metric1''] (Some ''SGA'', []) total_row
     = (Some ''SGA'', [\<lparr>indication = S ''SGA'', rtype = S ''Total patients (UNIQUE)'',
                       metrics = [(''Metric1'', Fin 50)]\<rparr>])"
  by code_simp

lemma total_row_label: "key_label 0 2 total_row = Some ''Total patients (UNIQUE)''"
  by code_simp

text \<open>
  C6, as stated, fails. With the section ``SGA'' active, the row ``Total patients (UNIQUE)''
  with the number 50 is classified as a data row and stored as a record.
\<close>

theorem total_row_counterexample:
  "key_label 0 2 total_row = Some ''Total patients (UNIQUE)''
   \<and> is_data_row (Some ''SGA'') 0 2 total_row ''Total patients (UNIQUE)''
   \<and> snd (primary_step 0 2 [''Type'', ''Metric1''] (Some ''SGA'', []) total_row)
       = [\<lparr>indication = S ''SGA'', rtype = S ''Total patients (UNIQUE)'',
           metrics = [(''Metric1'', Fin 50)]\<rparr>]"
proof -
  have "is_data_row (Some ''SGA'') 0 2 total_row ''Total patients (UNIQUE)''" by code_simp
  with total_row_label total_row_step show ?thesis by simp
qed

text \<open>The amended C6 at the rollup row with the section ``SGA'' active.\<close>

theorem total_unique_rows_witness:
  "key_label 0 2 total_row = Some ''Total patients (UNIQUE)''
   \<and> contains (lower ''Total patients (UNIQUE)'') ''total patients''
   \<and> fst (primary_step 0 2 [''Type'', ''Metric1''] (Some ''SGA'', []) total_row) = Some ''SGA''
   \<and> is_data_row (Some ''SGA'') 0 2 total_row ''Total patients (UNIQUE)''
   \<and> has_numeric 0 2 total_row"
proof -
  have c: "contains (lower ''Total patients (UNIQUE)'') ''total patients''" by code_simp
  have n: "has_numeric 0 2 total_row" by code_simp
  from total_unique_rows[OF total_row_label, of "[''Type'', ''Metric1'']" "Some ''SGA''" "[]"] c n
    total_row_label
  show ?thesis by simp
qed

subsection \<open>C7: the fallback pass\<close>

lemma foldl_invariant_set:
  assumes "I s" and "\<And>s x. x \<in> set xs \<Longrightarrow> I s \<Longrightarrow> I (f s x)"
  shows "I (foldl f s xs)"
  using assms by (induction xs arbitrary: s) auto

lemma indication_row_set:
  "indication (row_set h v rw) = indication rw \<or> (\<exists>x. indication (row_set h v rw) = F x)"
  by (simp add: row_set_def)

lemma indication_fill_metrics:
  "indication (fill_metrics tc nc hs r rw) = indication rw
     \<or> (\<exists>x. indication (fill_metrics tc nc hs r rw) = F x)"
  unfolding fill_metrics_def
proof (rule foldl_invariant[where I = "\<lambda>a. indication a = indication rw \<or> (\<exists>x. indication a = F x)"])
  show "indication rw = indication rw \<or> (\<exists>x. indication rw = F x)" by simp
next
  fix s :: row and x
  assume "indication s = indication rw \<or> (\<exists>x. indication s = F x)"
  then show "indication (if hs ! x = [] then s
                    else row_set (hs ! x) (float_or_zero (cell_at r x)) s) = indication rw
      \<or> (\<exists>xa. indication (if hs ! x = [] then s
                       else row_set (hs ! x) (float_or_zero (cell_at r x)) s) = F xa)"
    using indication_row_set[of "hs ! x" "float_or_zero (cell_at r x)" s] by auto
qed

lemma indication_make_row:
  "indication (make_row ind t tc nc hs r) = S ind \<or> (\<exists>x. indication (make_row ind t tc nc hs r) = F x)"
  using indication_fill_metrics[of tc nc hs r "\<lparr>indication = S ind, rtype = S t, metrics = []\<rparr>"]
  by (simp add: make_row_def)

lemma fallback_step_inv:
  assumes "r \<in> set rs"
    and "(fst st = ''Details'' \<or> (\<exists>x\<in>set rs. fst st = strip (py_str (cell_at x 0))))
         \<and> (\<forall>rw\<in>set (snd st).
               indication rw = S ''Details''
               \<or> (\<exists>x\<in>set rs. indication rw = S (strip (py_str (cell_at x 0))))
               \<or> (\<exists>v. indication rw = F v))"
  shows "(fst (fallback_step nc hs st r) = ''Details''
           \<or> (\<exists>x\<in>set rs. fst (fallback_step nc hs st r) = strip (py_str (cell_at x 0))))
         \<and> (\<forall>rw\<in>set (snd (fallback_step nc hs st r)).
               indication rw = S ''Details''
               \<or> (\<exists>x\<in>set rs. indication rw = S (strip (py_str (cell_at x 0))))
               \<or> (\<exists>v. indication rw = F v))"
proof (cases "0 < nc \<and> \<not> isna (cell_at r 0)")
  case False
  then have "fallback_step nc hs st r = st"
    by (auto simp: fallback_step_def)
  with assms(2) show ?thesis by simp
next
  case True
  let ?t = "strip (py_str (cell_at r 0))"
  have cases: "fallback_step nc hs st r = st
      \<or> fallback_step nc hs st r = (?t, snd st)
      \<or> (\<exists>ty. fallback_step nc hs st r = (fst st, snd st @ [make_row (fst st) ty 0 nc hs r]))"
    using True by (auto simp: fallback_step_def Let_def split: option.splits)
  then consider (same) "fallback_step nc hs st r = st"
    | (sect) "fallback_step nc hs st r = (?t, snd st)"
    | (emit) ty where "fallback_step nc hs st r = (fst st, snd st @ [make_row (fst st) ty 0 nc hs r])"
    by blast
  then show ?thesis
  proof cases
    case same
    with assms(2) show ?thesis by simp
  next
    case sect
    with assms show ?thesis by auto
  next
    case emit
    from indication_make_row[of "fst st" ty 0 nc hs r] assms(2)
    have "indication (make_row (fst st) ty 0 nc hs r) = S ''Details''
          \<or> (\<exists>x\<in>set rs. indication (make_row (fst st) ty 0 nc hs r) = S (strip (py_str (cell_at x 0))))
          \<or> (\<exists>v. indication (make_row (fst st) ty 0 nc hs r) = F v)"
      by auto
    with emit assms(2) show ?thesis by auto
  qed
qed

lemma fallback_pass_inv:
  "(fst (fallback_pass g) = ''Details''
      \<or> (\<exists>x\<in>set (drop 1 g). fst (fallback_pass g) = strip (py_str (cell_at x 0))))
   \<and> (\<forall>rw\<in>set (snd (fallback_pass g)).
         indication rw = S ''Details''
         \<or> (\<exists>x\<in>set (drop 1 g). indication rw = S (strip (py_str (cell_at x 0))))
         \<or> (\<exists>v. indication rw = F v))"
  unfolding fallback_pass_def
  by (rule foldl_invariant_set[where I = "\<lambda>st.
        (fst st = ''Details'' \<or> (\<exists>x\<in>set (drop 1 g). fst st = strip (py_str (cell_at x 0))))
         \<and> (\<forall>rw\<in>set (snd st).
               indication rw = S ''Details''
               \<or> (\<exists>x\<in>set (drop 1 g). indication rw = S (strip (py_str (cell_at x 0))))
               \<or> (\<exists>v. indication rw = F v))"])
     (simp, rule fallback_step_inv)

text \<open>
  C7, amended. When a header row was found, the fallback pass runs if and only if the grid
  has at least two rows and two columns and the primary pass produced no record. A record
  of the fallback pass carries as section label the placeholder ``Details'' or the trimmed
  key-cell text of a row below row 0, unless a metric header named ``Indication''
  overwrites the label with a number.
\<close>

theorem fallback_runs_and_sections:
  "(find_header g = Some (hr, tc)
      \<longrightarrow> (fst (collect_rows g) \<longleftrightarrow> 2 \<le> nrows g \<and> 2 \<le> ncols g \<and> snd (primary_pass g hr tc) = []))
   \<and> (\<forall>rw\<in>set (snd (fallback_pass g)).
         indication rw = S ''Details''
         \<or> (\<exists>x\<in>set (drop 1 g). indication rw = S (strip (py_str (cell_at x 0))))
         \<or> (\<exists>v. indication rw = F v))"
proof (intro conjI impI)
  assume "find_header g = Some (hr, tc)"
  then show "fst (collect_rows g) \<longleftrightarrow> 2 \<le> nrows g \<and> 2 \<le> ncols g \<and> snd (primary_pass g hr tc) = []"
    by (auto simp: collect_rows_def Let_def)
next
  show "\<forall>rw\<in>set (snd (fallback_pass g)).
         indication rw = S ''Details''
         \<or> (\<exists>x\<in>set (drop 1 g). indication rw = S (strip (py_str (cell_at x 0))))
         \<or> (\<exists>v. indication rw = F v)"
    using fallback_pass_inv[of g] by blast
qed


text \<open>
  C7, as stated, fails. On the scenario grid the fallback pass runs and its two records
  carry two different section labels, neither of them the placeholder; on the sheet of one
  column the primary pass produces no record and the fallback pass does not run.
\<close>

theorem fallback_counterexample:
  "fst (collect_rows (scenario_grid Blank)) = True
   \<and> map indication (snd (collect_rows (scenario_grid Blank)))
       = [S ''Category X'', S ''Category Y'']
   \<and> find_header one_column_grid = Some (0, 0)
   \<and> snd (primary_pass one_column_grid 0 0) = []
   \<and> fst (collect_rows one_column_grid) = False"
proof -
  have h: "find_header one_column_grid = Some (0, 0)" by code_simp
  have p: "snd (primary_pass one_column_grid 0 0) = []" by code_simp
  have n: "ncols one_column_grid = 1" by (simp add: one_column_grid_def ncols_def)
  have c: "fst (collect_rows one_column_grid) = False"
    using h p n by (simp add: collect_rows_def)
  from h p c show ?thesis by (simp add: scenario_collect)
qed

text \<open>The amended C7 on the scenario grid.\<close>

theorem fallback_runs_and_sections_witness:
  "find_header (scenario_grid Blank) = Some (2, 0)
   \<and> fst (collect_rows (scenario_grid Blank)) = True
   \<and> snd (primary_pass (scenario_grid Blank) 2 0) = []
   \<and> 2 \<le> nrows (scenario_grid Blank) \<and> 2 \<le> ncols (scenario_grid Blank)
   \<and> \<lparr>indication = S ''Category X'', rtype = S ''Widget A'', metrics = []\<rparr>
        \<in> set (snd (fallback_pass (scenario_grid Blank)))
   \<and> (\<exists>x\<in>set (drop 1 (scenario_grid Blank)).
         S ''Category X'' = S (strip (py_str (cell_at x 0))))"
proof -
  let ?rw = "\<lparr>indication = S ''Category X'', rtype = S ''Widget A'', metrics = []\<rparr>"
  have c: "fst (collect_rows (scenario_grid Blank)) = True"
    by (simp add: scenario_collect)
  have m: "?rw \<in> set (snd (fallback_pass (scenario_grid Blank)))"
    by (simp add: scenario_fallback)
  from fallback_runs_and_sections[of "scenario_grid Blank" 2 0] m
  have "indication ?rw = S ''Details''
        \<or> (\<exists>x\<in>set (drop 1 (scenario_grid Blank)).
              indication ?rw = S (strip (py_str (cell_at x 0))))
        \<or> (\<exists>v. indication ?rw = F v)"
    by blast
  then have e: "\<exists>x\<in>set (drop 1 (scenario_grid Blank)).
                  S ''Category X'' = S (strip (py_str (cell_at x 0)))"
    by simp
  from scenario_find_header c scenario_primary scenario_size[of Blank] m e
  show ?thesis by simp
qed

subsection \<open>C4: the reconciler\<close>
























subsection \<open>C8: the write count\<close>





lemma save_workbook_ok:
  assumes "fs (if fst p = [] then ''.'' else fst p, tmp_name) = None"
  shows "save_workbook tmp_name NoFault uf fs p wb = (None, fs(p \<mapsto> Workbook wb))"
proof -
  let ?t = "(if fst p = [] then ''.'' else fst p, tmp_name)"
  have "(fs(?t \<mapsto> EmptyFile))(?t := None) = fs" using assms by (auto simp: fun_eq_iff)
  then have "((fs(?t \<mapsto> EmptyFile))(?t := None))(p \<mapsto> Workbook wb) = fs(p \<mapsto> Workbook wb)"
    by simp
  with assms show ?thesis by (simp add: save_workbook_def Let_def)
qed

lemma save_workbook_cases:
  "(\<exists>e. save_workbook tmp_name flt uf fs p wb = (Some e, snd (save_workbook tmp_name flt uf fs p wb))
        \<and> (fs p \<noteq> None \<longrightarrow> snd (save_workbook tmp_name flt uf fs p wb) p = fs p)
        \<and> (\<forall>q. q \<noteq> (if fst p = [] then ''.'' else fst p, tmp_name)
               \<longrightarrow> snd (save_workbook tmp_name flt uf fs p wb) q = fs q))
   \<or> (flt = NoFault \<and> fs (if fst p = [] then ''.'' else fst p, tmp_name) = None
       \<and> save_workbook tmp_name flt uf fs p wb = (None, fs(p \<mapsto> Workbook wb)))"
proof (cases "fs (if fst p = [] then ''.'' else fst p, tmp_name) = None")
  case False
  then show ?thesis by (auto simp: save_workbook_def Let_def)
next
  case True
  show ?thesis
  proof (cases flt)
    case NoFault
    from True have "save_workbook tmp_name NoFault uf fs p wb = (None, fs(p \<mapsto> Workbook wb))"
      by (rule save_workbook_ok)
    with NoFault True show ?thesis by simp
  next
    case CloseFails
    with True show ?thesis by (auto simp: save_workbook_def Let_def cleanup_def)
  next
    case SaveFails
    with True show ?thesis by (auto simp: save_workbook_def Let_def cleanup_def)
  next
    case ReplaceFails
    with True show ?thesis by (auto simp: save_workbook_def Let_def cleanup_def)
  qed
qed






subsection \<open>C9: the save\<close>

text \<open>
  C9. A call that raises leaves the target file as it was and changes no file other than
  the temporary one; a call in which a step of the save fails (closing the temporary
  file, saving the workbook into it, or replacing the target) raises. A call that returns
  has changed the file system only by putting a workbook at the target path, through a
  temporary file of the target's directory that did not exist before and is gone after.
\<close>

theorem atomic_replace:
  "(\<forall>e. fst (fill_details_sheet_to_excel fstr tmp_name flt uf fs filepath details_df sheet_name) = Inl e
        \<longrightarrow> snd (fill_details_sheet_to_excel fstr tmp_name flt uf fs filepath details_df sheet_name)
              filepath = fs filepath
            \<and> (\<forall>q. q \<noteq> (if fst filepath = [] then ''.'' else fst filepath, tmp_name)
                   \<longrightarrow> snd (fill_details_sheet_to_excel fstr tmp_name flt uf fs filepath details_df
                          sheet_name) q = fs q))
   \<and> (flt \<noteq> NoFault
        \<longrightarrow> (\<exists>e. fst (fill_details_sheet_to_excel fstr tmp_name flt uf fs filepath details_df
                      sheet_name) = Inl e))
   \<and> (\<forall>n. fst (fill_details_sheet_to_excel fstr tmp_name flt uf fs filepath details_df sheet_name) = Inr n
        \<longrightarrow> fs (if fst filepath = [] then ''.'' else fst filepath, tmp_name) = None
            \<and> (\<exists>wb'. snd (fill_details_sheet_to_excel fstr tmp_name flt uf fs filepath details_df
                          sheet_name) = fs(filepath \<mapsto> Workbook wb')))"
proof -
  let ?res = "fill_details_sheet_to_excel fstr tmp_name flt uf fs filepath details_df sheet_name"
  let ?tmp = "(if fst filepath = [] then ''.'' else fst filepath, tmp_name)"
  have cases: "(\<exists>e. ?res = (Inl e, fs))
     \<or> (fs filepath \<noteq> None
         \<and> (\<exists>wb' n. ?res = (case save_workbook tmp_name flt uf fs filepath wb' of
                                 (Some e, fs') \<Rightarrow> (Inl e, fs')
                               | (None, fs') \<Rightarrow> (Inr n, fs'))))"
    by (auto simp: fill_details_sheet_to_excel_def Let_def split: option.splits file_content.splits)
  then consider (early) e where "?res = (Inl e, fs)"
    | (save) wb' n where "fs filepath \<noteq> None"
        "?res = (case save_workbook tmp_name flt uf fs filepath wb' of
                   (Some e, fs') \<Rightarrow> (Inl e, fs')
                 | (None, fs') \<Rightarrow> (Inr n, fs'))"
    by blast
  then show ?thesis
  proof cases
    case early
    then show ?thesis by simp
  next
    case save
    from save_workbook_cases[of tmp_name flt uf fs filepath wb']
    show ?thesis
    proof
      assume "\<exists>e. save_workbook tmp_name flt uf fs filepath wb'
                   = (Some e, snd (save_workbook tmp_name flt uf fs filepath wb'))
        \<and> (fs filepath \<noteq> None \<longrightarrow> snd (save_workbook tmp_name flt uf fs filepath wb') filepath = fs filepath)
        \<and> (\<forall>q. q \<noteq> ?tmp \<longrightarrow> snd (save_workbook tmp_name flt uf fs filepath wb') q = fs q)"
      then obtain e where e: "save_workbook tmp_name flt uf fs filepath wb'
                   = (Some e, snd (save_workbook tmp_name flt uf fs filepath wb'))"
        and t: "snd (save_workbook tmp_name flt uf fs filepath wb') filepath = fs filepath"
        and o: "\<forall>q. q \<noteq> ?tmp \<longrightarrow> snd (save_workbook tmp_name flt uf fs filepath wb') q = fs q"
        using save(1) by blast
      have "?res = (Inl e, snd (save_workbook tmp_name flt uf fs filepath wb'))"
        using save(2) e by (metis (no_types, lifting) case_prod_conv option.simps(5))
      with t o show ?thesis by simp
    next
      assume "flt = NoFault \<and> fs ?tmp = None
        \<and> save_workbook tmp_name flt uf fs filepath wb' = (None, fs(filepath \<mapsto> Workbook wb'))"
      with save(2) show ?thesis by auto
    qed
  qed
qed


text \<open>C9 on the workbook, with the replace step failing.\<close>

theorem atomic_replace_witness:
  "ReplaceFails \<noteq> NoFault
   \<and> (\<exists>e. fst (fill_details_sheet_to_excel (\<lambda>v. ''5.0'') ''tmp3k8.xlsx'' ReplaceFails False
               target_fs target_path details_table None) = Inl e)
   \<and> snd (fill_details_sheet_to_excel (\<lambda>v. ''5.0'') ''tmp3k8.xlsx'' ReplaceFails False
               target_fs target_path details_table None) target_path
       = Some (Workbook details_workbook)"
proof -
  note inst = atomic_replace[of "\<lambda>v. ''5.0''" "''tmp3k8.xlsx''" ReplaceFails False target_fs
               target_path details_table None]
  have f: "ReplaceFails \<noteq> NoFault" by simp
  with inst obtain e where e: "fst (fill_details_sheet_to_excel (\<lambda>v. ''5.0'') ''tmp3k8.xlsx''
               ReplaceFails False target_fs target_path details_table None) = Inl e"
    by blast
  with inst have "snd (fill_details_sheet_to_excel (\<lambda>v. ''5.0'') ''tmp3k8.xlsx'' ReplaceFails
               False target_fs target_path details_table None) target_path
               = target_fs target_path"
    by blast
  then have "snd (fill_details_sheet_to_excel (\<lambda>v. ''5.0'') ''tmp3k8.xlsx'' ReplaceFails
               False target_fs target_path details_table None) target_path
               = Some (Workbook details_workbook)"
    by (simp add: target_fs_def)
  with f e show ?thesis by blast
qed

subsection \<open>C10: the check of the frame\<close>

text \<open>
  C10. A call whose table is empty, or whose index levels are not named exactly
  Indication and Type, raises the ValueError for the frame and leaves the file system as
  it is, whatever the file system holds at the target path: no file is opened before.
\<close>

theorem bad_frame_rejected:
  assumes "df_empty details_df \<or> index_names details_df \<noteq> [Some ''Indication'', Some ''Type'']"
  shows "fill_details_sheet_to_excel fstr tmp_name flt uf fs filepath details_df sheet_name
         = (Inl BadFrame, fs)"
  using assms by (auto simp: fill_details_sheet_to_excel_def)



text \<open>C10 at the empty frame and a file system without the target file.\<close>

theorem bad_frame_rejected_witness:
  "df_empty (empty_frame :: (string \<times> string) frame)
   \<and> fill_details_sheet_to_excel (\<lambda>v. ''5.0'') ''tmp3k8.xlsx'' NoFault False Map.empty
        target_path empty_frame None
      = (Inl BadFrame, Map.empty)"
proof -
  have e: "df_empty (empty_frame :: (string \<times> string) frame)"
    by (simp add: df_empty_def empty_frame_def)
  then have "df_empty (empty_frame :: (string \<times> string) frame)
             \<or> index_names (empty_frame :: (string \<times> string) frame)
                 \<noteq> [Some ''Indication'', Some ''Type'']"
    by simp
  from bad_frame_rejected[OF this] e show ?thesis by simp
qed

end
